theory Spec2Isabelle
  imports Complex_Main "HOL-Library.Word" "HOL-Library.Log_Nat" "HOL-Library.AList"
begin

section \<open>Values, exceptions and records of the authentication service\<close>

text \<open>
  The development embeds \<^verbatim>\<open>_app/homepage/services/authentication.py\<close>: the class
  \<^verbatim>\<open>AuthenticationService\<close> with its two public methods and its three cache helpers.
  Python exceptions are values of \<open>exn\<close>; every method returns \<open>exn + result\<close> paired with
  the state it leaves behind.
\<close>

type_synonym bytes = "8 word list"

datatype exn =
    NameError string
  | UnboundLocalError string
  | KeyError string
  | TypeError
  | ZeroDivisionError
  | OverflowError
  | InvalidAuthenticationResponse string
  | LibraryError string

text \<open>Python values as they occur in JSON documents and in the dictionaries built from them.\<close>

datatype pyval =
    PNone
  | PBool bool
  | PInt int
  | PStr string
  | PBytes bytes
  | PList "pyval list"
  | PDict "(string \<times> pyval) list"

datatype UserVerificationRequirement = REQUIRED | PREFERRED | DISCOURAGED

text \<open>
  Modelled from the spec: the stored credential record \<^verbatim>\<open>homepage.models.WebAuthnCredential\<close>
  is declared outside this file. The spec lists its fields: an identifier and public key kept as
  base64url text, a signature counter, the owning username and the allowed transports.
\<close>

record WebAuthnCredential =
  cred_id :: string
  cred_transports :: pyval
  cred_public_key :: string
  cred_sign_count :: int
  cred_username :: string

record PublicKeyCredentialDescriptor =
  desc_id :: bytes
  desc_transports :: pyval

record PublicKeyCredentialRequestOptions =
  challenge :: bytes
  timeout :: "int option"
  rp_id :: "string option"
  allow_credentials :: "PublicKeyCredentialDescriptor list option"
  user_verification :: "UserVerificationRequirement option"

text \<open>The dataclass \<^verbatim>\<open>VerifiedAuthentication\<close> of the module.\<close>

record VerifiedAuthentication =
  credential_id :: bytes
  new_sign_count :: int
  username :: string

text \<open>The two fields the module reads from the library's own verification result.\<close>

record lib_VerifiedAuthentication =
  lib_credential_id :: bytes
  lib_new_sign_count :: int

record django_settings =
  RP_ID :: string
  RP_EXPECTED_ORIGIN :: string

text \<open>Keyword arguments of the two library entry points, as the module passes them.\<close>

record generate_args =
  ga_rp_id :: string
  ga_user_verification :: UserVerificationRequirement
  ga_allow_credentials :: "PublicKeyCredentialDescriptor list"

record 'c verify_args =
  credential :: 'c
  expected_challenge :: bytes
  expected_rp_id :: string
  expected_origin :: string
  require_user_verification :: bool
  credential_public_key :: bytes
  credential_current_sign_count :: int

text \<open>
  The names the module imports from the \<^verbatim>\<open>webauthn\<close> package. The library is not part of
  the repository, so its behaviour is a parameter; \<open>'c\<close> is the library's parsed credential.
  Every entry may raise.
\<close>

record 'c webauthn =
  lib_generate_authentication_options :: "generate_args \<Rightarrow> exn + PublicKeyCredentialRequestOptions"
  options_to_json :: "PublicKeyCredentialRequestOptions \<Rightarrow> exn + string"
  lib_verify_authentication_response :: "'c verify_args \<Rightarrow> exn + lib_VerifiedAuthentication"
  base64url_to_bytes :: "pyval \<Rightarrow> exn + bytes"
  parse_authentication_credential_json :: "pyval \<Rightarrow> exn + 'c"
  new_PublicKeyCredentialDescriptor :: "bytes \<Rightarrow> pyval \<Rightarrow> exn + PublicKeyCredentialDescriptor"
  parse_obj :: "pyval \<Rightarrow> exn + PublicKeyCredentialRequestOptions"

section \<open>The cache\<close>

text \<open>
  Every call that leaves the module towards the cache or towards the two library entry points
  is recorded, in order, in the \<open>trace\<close> of the state.
\<close>

datatype 'c event =
    CacheStore string string int
  | CacheRetrieve string
  | CacheDelete string
  | LibGenerate generate_args
  | LibVerify "'c verify_args"

record 'c state =
  cache :: "string \<rightharpoonup> (string \<times> int)"
  trace :: "'c event list"

text \<open>
  Modelled from the spec: \<^verbatim>\<open>homepage.services.RedisService\<close> is declared outside this file.
  The spec gives its three operations: \<^verbatim>\<open>store(key, value, expirationSeconds)\<close>,
  \<^verbatim>\<open>retrieve(key) -> text|absent\<close> and \<^verbatim>\<open>delete(key) -> count-removed\<close>, the last one
  idempotent. Expiry of an entry with the passing of time is not part of the model.
\<close>

definition store :: "'c state \<Rightarrow> string \<Rightarrow> string \<Rightarrow> int \<Rightarrow> bool \<times> 'c state" where
  "store st key val expiration_seconds =
     (True, st\<lparr>cache := (cache st)(key \<mapsto> (val, expiration_seconds)),
               trace := trace st @ [CacheStore key val expiration_seconds]\<rparr>)"

definition retrieve :: "'c state \<Rightarrow> string \<Rightarrow> string option \<times> 'c state" where
  "retrieve st key =
     (map_option fst (cache st key), st\<lparr>trace := trace st @ [CacheRetrieve key]\<rparr>)"

definition delete :: "'c state \<Rightarrow> string \<Rightarrow> int \<times> 'c state" where
  "delete st key =
     ((if cache st key = None then 0 else 1),
      st\<lparr>cache := (cache st)(key := None), trace := trace st @ [CacheDelete key]\<rparr>)"


section \<open>Python arithmetic on floats\<close>

text \<open>
  \<^verbatim>\<open>_save_options\<close> computes \<^verbatim>\<open>int(expiration / 1000 * 2)\<close>. In Python \<^verbatim>\<open>/\<close> on two
  integers is true division: the result is the IEEE 754 binary64 number nearest to the exact
  quotient, ties going to the even significand. A finite binary64 number is represented by
  the rational it denotes.
\<close>

definition round_half_even :: "rat \<Rightarrow> int" where
  "round_half_even y =
     (let f = \<lfloor>y\<rfloor>; d = y - of_int f
      in if d < 1 / 2 then f else if 1 / 2 < d then f + 1 else if even f then f else f + 1)"

definition pow2 :: "int \<Rightarrow> rat" where
  "pow2 z = (if 0 \<le> z then 2 ^ nat z else 1 / 2 ^ nat (- z))"

text \<open>The binary exponent of a positive rational: the \<open>e\<close> with \<open>2\<^sup>e \<le> x < 2\<^sup>e\<^sup>+\<^sup>1\<close>.\<close>

definition ilog2 :: "rat \<Rightarrow> int" where
  "ilog2 x = (case quotient_of x of (a, b) \<Rightarrow>
                let e = bitlen a - bitlen b in if pow2 e \<le> x then e else e - 1)"

text \<open>
  Rounding to binary64: 53 significant bits, the spacing never below \<open>2\<^sup>-\<^sup>1\<^sup>0\<^sup>7\<^sup>4\<close>
  (gradual underflow), and \<open>None\<close> when the rounded magnitude reaches \<open>2\<^sup>1\<^sup>0\<^sup>2\<^sup>4\<close>.
\<close>

definition round_double :: "rat \<Rightarrow> rat option" where
  "round_double x =
     (if x = 0 then Some 0
      else let q = max (ilog2 \<bar>x\<bar> - 52) (- 1074);
               r = of_int (round_half_even (\<bar>x\<bar> / pow2 q)) * pow2 q
           in if pow2 1024 \<le> r then None else Some (sgn x * r))"

datatype pyfloat = Finite rat | PosInf | NegInf

text \<open>\<^verbatim>\<open>a / b\<close> on integers: raises rather than returning an infinity.\<close>

definition int_truediv :: "int \<Rightarrow> int \<Rightarrow> exn + rat" where
  "int_truediv a b =
     (if b = 0 then Inl ZeroDivisionError
      else case round_double (of_int a / of_int b) of
             None \<Rightarrow> Inl OverflowError
           | Some d \<Rightarrow> Inr d)"

text \<open>The product of two finite floats: overflows silently to an infinity.\<close>

definition float_mul :: "rat \<Rightarrow> rat \<Rightarrow> pyfloat" where
  "float_mul x y =
     (case round_double (x * y) of
        Some d \<Rightarrow> Finite d
      | None \<Rightarrow> if 0 < x * y then PosInf else NegInf)"

text \<open>\<^verbatim>\<open>int(f)\<close>: truncation towards zero, \<^verbatim>\<open>OverflowError\<close> on an infinity.\<close>

definition int_of_float :: "pyfloat \<Rightarrow> exn + int" where
  "int_of_float f =
     (case f of
        Finite d \<Rightarrow> Inr (if 0 \<le> d then \<lfloor>d\<rfloor> else \<lceil>d\<rceil>)
      | _ \<Rightarrow> Inl OverflowError)"

section \<open>Helpers for exceptions, dictionaries and comprehensions\<close>

definition seq :: "exn + 'a \<Rightarrow> ('a \<Rightarrow> exn + 'b) \<Rightarrow> exn + 'b" where
  "seq r f = (case r of Inl e \<Rightarrow> Inl e | Inr x \<Rightarrow> f x)"

text \<open>A list comprehension whose element expression may raise: the first exception ends it.\<close>

fun comprehension :: "('a \<Rightarrow> exn + 'b) \<Rightarrow> 'a list \<Rightarrow> exn + 'b list" where
  "comprehension f [] = Inr []"
| "comprehension f (x # xs) =
     (case f x of
        Inl e \<Rightarrow> Inl e
      | Inr y \<Rightarrow> (case comprehension f xs of Inl e \<Rightarrow> Inl e | Inr ys \<Rightarrow> Inr (y # ys)))"

text \<open>\<^verbatim>\<open>d[k]\<close>, \<^verbatim>\<open>d[k] = v\<close> and \<^verbatim>\<open>for x in v\<close> on Python values.\<close>

definition getitem :: "pyval \<Rightarrow> string \<Rightarrow> exn + pyval" where
  "getitem d k =
     (case d of
        PDict kvs \<Rightarrow> (case map_of kvs k of Some v \<Rightarrow> Inr v | None \<Rightarrow> Inl (KeyError k))
      | _ \<Rightarrow> Inl TypeError)"

definition setitem :: "pyval \<Rightarrow> string \<Rightarrow> pyval \<Rightarrow> exn + pyval" where
  "setitem d k v =
     (case d of
        PDict kvs \<Rightarrow> Inr (PDict (AList.update k v kvs))
      | _ \<Rightarrow> Inl TypeError)"

definition iter :: "pyval \<Rightarrow> exn + pyval list" where
  "iter v =
     (case v of
        PList xs \<Rightarrow> Inr xs
      | PDict kvs \<Rightarrow> Inr (map (\<lambda>kv. PStr (fst kv)) kvs)
      | PStr s \<Rightarrow> Inr (map (\<lambda>c. PStr [c]) s)
      | PBytes b \<Rightarrow> Inr (map (\<lambda>w. PInt (uint w)) b)
      | _ \<Rightarrow> Inl TypeError)"


section \<open>The cache helpers of the service\<close>

text \<open>
  Lines 119 to 126 of \<^verbatim>\<open>_save_options\<close>: the expiration from the options' timeout.
  \<^verbatim>\<open>type(expiration) is int\<close> holds exactly when the optional timeout is present.
\<close>

definition expiration_of :: "int option \<Rightarrow> exn + int" where
  "expiration_of t =
     (case t of
        Some expiration \<Rightarrow>
          (case int_truediv expiration 1000 of
             Inl e \<Rightarrow> Inl e
           | Inr d \<Rightarrow> int_of_float (float_mul d 2))
      | None \<Rightarrow> Inr 120)"

definition save_options ::
  "'c webauthn \<Rightarrow> 'c state \<Rightarrow> string \<Rightarrow> PublicKeyCredentialRequestOptions
     \<Rightarrow> (exn + bool) \<times> 'c state" where
  "save_options lib st cache_key options =
     (case expiration_of (timeout options) of
        Inl e \<Rightarrow> (Inl e, st)
      | Inr expiration \<Rightarrow>
          (case options_to_json lib options of
             Inl e \<Rightarrow> (Inl e, st)
           | Inr v \<Rightarrow> (case store st cache_key v expiration of (b, st1) \<Rightarrow> (Inr b, st1))))"

text \<open>
  \<^verbatim>\<open>_get_options\<close> calls \<^verbatim>\<open>json_loads_base64url_to_bytes(options)\<close> on line 143. The module
  binds no such name: its import block takes only \<^verbatim>\<open>base64url_to_bytes\<close> and
  \<^verbatim>\<open>parse_authentication_credential_json\<close> from \<^verbatim>\<open>webauthn.helpers\<close>, nothing in the
  module defines it, and it is no builtin. Python looks a global name up when the call is
  evaluated, so the call raises \<^verbatim>\<open>NameError\<close> whatever its argument.
\<close>

definition json_loads_base64url_to_bytes :: "string \<Rightarrow> exn + pyval" where
  "json_loads_base64url_to_bytes s = Inl (NameError ''json_loads_base64url_to_bytes'')"

text \<open>The element expression \<^verbatim>\<open>{**cred, "id": base64url_to_bytes(cred["id"])}\<close>.\<close>

definition redecode_id :: "'c webauthn \<Rightarrow> pyval \<Rightarrow> exn + pyval" where
  "redecode_id lib cred =
     (case cred of
        PDict kvs \<Rightarrow>
          seq (getitem cred ''id'') (\<lambda>i.
          seq (base64url_to_bytes lib i) (\<lambda>b.
          Inr (PDict (AList.update ''id'' (PBytes b) kvs))))
      | _ \<Rightarrow> Inl TypeError)"

definition get_options ::
  "'c webauthn \<Rightarrow> 'c state \<Rightarrow> string
     \<Rightarrow> (exn + PublicKeyCredentialRequestOptions option) \<times> 'c state" where
  "get_options lib st cache_key =
     (case retrieve st cache_key of
        (options, st1) \<Rightarrow>
          (case options of
             None \<Rightarrow> (Inr None, st1)
           | Some s \<Rightarrow>
               (seq (json_loads_base64url_to_bytes s) (\<lambda>options_json.
                seq (getitem options_json ''challenge'') (\<lambda>c.
                seq (base64url_to_bytes lib c) (\<lambda>cb.
                seq (setitem options_json ''challenge'' (PBytes cb)) (\<lambda>options_json.
                seq (getitem options_json ''allowCredentials'') (\<lambda>acs.
                seq (iter acs) (\<lambda>creds.
                seq (comprehension (redecode_id lib) creds) (\<lambda>acs'.
                seq (setitem options_json ''allowCredentials'' (PList acs')) (\<lambda>options_json.
                seq (parse_obj lib options_json) (\<lambda>parsed.
                Inr (Some parsed)))))))))),
                st1)))"

definition delete_options :: "'c state \<Rightarrow> string \<Rightarrow> int \<times> 'c state" where
  "delete_options st cache_key = delete st cache_key"

section \<open>Generating authentication options\<close>

text \<open>
  Lines 54 to 59: the chain of \<^verbatim>\<open>if\<close>/\<^verbatim>\<open>elif\<close> has no \<^verbatim>\<open>else\<close>, so for any other string
  the local \<^verbatim>\<open>_user_verification\<close> is never assigned (\<open>None\<close> here), and reading it on line 63
  raises \<^verbatim>\<open>UnboundLocalError\<close>.
\<close>

definition assigned_user_verification :: "string \<Rightarrow> UserVerificationRequirement option" where
  "assigned_user_verification uv =
     (if uv = ''discouraged'' then Some DISCOURAGED
      else if uv = ''preferred'' then Some PREFERRED
      else if uv = ''required'' then Some REQUIRED
      else None)"

text \<open>The element expression of the comprehension on lines 64 to 69.\<close>

definition descriptor_of :: "'c webauthn \<Rightarrow> WebAuthnCredential \<Rightarrow> exn + PublicKeyCredentialDescriptor" where
  "descriptor_of lib cred =
     seq (base64url_to_bytes lib (PStr (cred_id cred))) (\<lambda>b.
     new_PublicKeyCredentialDescriptor lib b (cred_transports cred))"

text \<open>
  The keyword arguments of the library call are evaluated left to right: the settings, then
  the local \<^verbatim>\<open>_user_verification\<close>, then the comprehension over
  \<^verbatim>\<open>existing_credentials[-64:]\<close>; only then is the library called.
\<close>

definition generate_authentication_options ::
  "'c webauthn \<Rightarrow> django_settings \<Rightarrow> 'c state \<Rightarrow> string \<Rightarrow> string \<Rightarrow> WebAuthnCredential list
     \<Rightarrow> (exn + PublicKeyCredentialRequestOptions) \<times> 'c state" where
  "generate_authentication_options lib settings st cache_key uv existing_credentials =
     (case assigned_user_verification uv of
        None \<Rightarrow> (Inl (UnboundLocalError ''_user_verification''), st)
      | Some uvr \<Rightarrow>
          (case comprehension (descriptor_of lib)
                  (drop (length existing_credentials - 64) existing_credentials) of
             Inl e \<Rightarrow> (Inl e, st)
           | Inr descriptors \<Rightarrow>
               (let args = \<lparr>ga_rp_id = RP_ID settings, ga_user_verification = uvr,
                            ga_allow_credentials = descriptors\<rparr>;
                    st1 = st\<lparr>trace := trace st @ [LibGenerate args]\<rparr>
                in case lib_generate_authentication_options lib args of
                     Inl e \<Rightarrow> (Inl e, st1)
                   | Inr authentication_options \<Rightarrow>
                       (case save_options lib st1 cache_key authentication_options of
                          (Inl e, st2) \<Rightarrow> (Inl e, st2)
                        | (Inr _, st2) \<Rightarrow> (Inr authentication_options, st2)))))"

section \<open>Verifying an authentication response\<close>

text \<open>
  Lines 89 to 113 of \<^verbatim>\<open>verify_authentication_response\<close>: what the method does once line 84
  has bound \<^verbatim>\<open>options\<close> to an options object. The enum member is a non-empty string, so
  \<^verbatim>\<open>if options.user_verification\<close> holds exactly when the field is set. The public key is
  decoded while the arguments of the library call are evaluated, after the delete.
\<close>

definition verify_with_options ::
  "'c webauthn \<Rightarrow> django_settings \<Rightarrow> 'c state \<Rightarrow> string \<Rightarrow> WebAuthnCredential \<Rightarrow> 'c
     \<Rightarrow> PublicKeyCredentialRequestOptions \<Rightarrow> (exn + VerifiedAuthentication) \<times> 'c state" where
  "verify_with_options lib settings st cache_key existing_credential cred options =
     (let require_uv =
            (if user_verification options \<noteq> None
             then user_verification options = Some REQUIRED else False)
      in case delete_options st cache_key of
           (_, st1) \<Rightarrow>
             (case base64url_to_bytes lib (PStr (cred_public_key existing_credential)) of
                Inl e \<Rightarrow> (Inl e, st1)
              | Inr pk \<Rightarrow>
                  (let args = \<lparr>credential = cred,
                               expected_challenge = challenge options,
                               expected_rp_id = RP_ID settings,
                               expected_origin = RP_EXPECTED_ORIGIN settings,
                               require_user_verification = require_uv,
                               credential_public_key = pk,
                               credential_current_sign_count = cred_sign_count existing_credential\<rparr>;
                       st2 = st1\<lparr>trace := trace st1 @ [LibVerify args]\<rparr>
                   in case lib_verify_authentication_response lib args of
                        Inl e \<Rightarrow> (Inl e, st2)
                      | Inr verification \<Rightarrow>
                          (Inr \<lparr>credential_id = lib_credential_id verification,
                                new_sign_count = lib_new_sign_count verification,
                                username = cred_username existing_credential\<rparr>, st2))))"

text \<open>The whole method: lines 83 to 87, then the part above.\<close>

definition verify_authentication_response ::
  "'c webauthn \<Rightarrow> django_settings \<Rightarrow> 'c state \<Rightarrow> string \<Rightarrow> WebAuthnCredential \<Rightarrow> pyval
     \<Rightarrow> (exn + VerifiedAuthentication) \<times> 'c state" where
  "verify_authentication_response lib settings st cache_key existing_credential response =
     (case parse_authentication_credential_json lib response of
        Inl e \<Rightarrow> (Inl e, st)
      | Inr cred \<Rightarrow>
          (case get_options lib st cache_key of
             (Inl e, st1) \<Rightarrow> (Inl e, st1)
           | (Inr None, st1) \<Rightarrow>
               (Inl (InvalidAuthenticationResponse (''no options for user '' @ cache_key)), st1)
           | (Inr (Some options), st1) \<Rightarrow>
               verify_with_options lib settings st1 cache_key existing_credential cred options))"


section \<open>A sample environment\<close>

text \<open>
  One concrete behaviour of the library, settings, a stored credential, an options object and
  two cache states, on which the theorems below are exercised. The sample library takes the
  parsed credential to be the response dictionary itself and rejects any response that is not
  a dictionary.
\<close>

definition sample_lib :: "pyval webauthn" where
  "sample_lib =
     \<lparr>lib_generate_authentication_options =
        (\<lambda>a. Inr \<lparr>challenge = [1, 2, 3], timeout = Some 60000, rp_id = Some (ga_rp_id a),
                   allow_credentials = Some (ga_allow_credentials a),
                   user_verification = Some (ga_user_verification a)\<rparr>),
      options_to_json = (\<lambda>opts. Inr ''{challenge: AQID}''),
      lib_verify_authentication_response =
        (\<lambda>a. if credential a = PDict [] then Inl (LibraryError ''signature'')
              else Inr \<lparr>lib_credential_id = credential_public_key a,
                        lib_new_sign_count = credential_current_sign_count a + 1\<rparr>),
      base64url_to_bytes =
        (\<lambda>v. case v of PStr s \<Rightarrow> Inr (map (\<lambda>c. of_nat (of_char c)) s) | _ \<Rightarrow> Inl TypeError),
      parse_authentication_credential_json =
        (\<lambda>v. case v of PDict kvs \<Rightarrow> Inr v | _ \<Rightarrow> Inl (LibraryError ''malformed'')),
      new_PublicKeyCredentialDescriptor = (\<lambda>b t. Inr \<lparr>desc_id = b, desc_transports = t\<rparr>),
      parse_obj = (\<lambda>v. Inl (LibraryError ''validation''))\<rparr>"

definition sample_settings :: django_settings where
  "sample_settings = \<lparr>RP_ID = ''example.org'', RP_EXPECTED_ORIGIN = ''https://example.org''\<rparr>"

definition sample_credential :: WebAuthnCredential where
  "sample_credential =
     \<lparr>cred_id = ''AQ'', cred_transports = PList [PStr ''usb''], cred_public_key = ''pk'',
      cred_sign_count = 4, cred_username = ''alice''\<rparr>"

definition sample_options :: PublicKeyCredentialRequestOptions where
  "sample_options =
     \<lparr>challenge = [1, 2, 3], timeout = Some 60000, rp_id = Some ''example.org'',
      allow_credentials = Some [\<lparr>desc_id = [65, 81], desc_transports = PList [PStr ''usb'']\<rparr>],
      user_verification = Some REQUIRED\<rparr>"

definition sample_response :: pyval where
  "sample_response = PDict [(''id'', PStr ''AQ'')]"

definition idle :: "pyval state" where
  "idle = \<lparr>cache = Map.empty, trace = []\<rparr>"

definition pending :: "pyval state" where
  "pending = \<lparr>cache = [''k'' \<mapsto> (''{challenge: AQID}'', 120)], trace = []\<rparr>"


section \<open>Rounding to binary64: error bounds\<close>

lemma round_half_even_error: "\<bar>of_int (round_half_even y) - y\<bar> \<le> 1 / 2"
proof -
  have aux: "\<bar>of_int (if y - of_int f < 1 / 2 then f
                         else if 1 / 2 < y - of_int f then f + 1
                         else if even f then f else f + 1) - y\<bar> \<le> 1 / 2"
    if "of_int f \<le> y" "y < of_int f + 1" for f :: int
    using that by (auto simp: abs_if)
  have "of_int \<lfloor>y\<rfloor> \<le> y" "y < of_int \<lfloor>y\<rfloor> + 1" by linarith+
  then show ?thesis
    unfolding round_half_even_def Let_def by (rule aux)
qed

lemma round_half_even_of_int: "round_half_even (of_int n) = n"
  by (simp add: round_half_even_def)

lemma pow2_powi: "pow2 z = 2 powi z"
  by (simp add: pow2_def power_int_def field_simps)

lemma pow2_pos: "0 < pow2 z"
  by (simp add: pow2_def)

lemma pow2_add: "pow2 (a + b) = pow2 a * pow2 b"
  by (simp add: pow2_powi power_int_add)

lemma pow2_mono: "a \<le> b \<Longrightarrow> pow2 a \<le> pow2 b"
  by (simp add: pow2_powi power_int_increasing)

lemma pow2_less_cancel: "pow2 a < pow2 b \<Longrightarrow> a < b"
  using pow2_mono [of b a] by (cases "a < b") auto

lemma ilog2_lower:
  assumes "0 < x"
  shows "pow2 (ilog2 x) \<le> x"
proof -
  obtain a b where q: "quotient_of x = (a, b)" by (cases "quotient_of x")
  then have b: "0 < b" and x: "x = of_int a / of_int b"
    using quotient_of_denom_pos quotient_of_div by blast+
  from assms x b have a: "0 < a" by (simp add: zero_less_divide_iff)
  let ?e = "bitlen a - bitlen b"
  show ?thesis
  proof (cases "pow2 ?e \<le> x")
    case True
    then show ?thesis by (simp add: ilog2_def q)
  next
    case False
    have la: "(2::int) ^ nat (bitlen a - 1) \<le> a" using bitlen_bounds [OF a] by simp
    have lb: "b < (2::int) ^ nat (bitlen b)" using bitlen_bounds [OF b] by simp
    have a1: "1 \<le> bitlen a" using a by (simp add: bitlen_alt_def)
    have b0: "0 \<le> bitlen b" by (rule bitlen_nonneg)
    have ra: "pow2 (bitlen a - 1) \<le> of_int a"
    proof -
      have "(of_int ((2::int) ^ nat (bitlen a - 1)) :: rat) \<le> of_int a"
        using la by (simp only: of_int_le_iff)
      then show ?thesis using a1 by (simp add: pow2_def)
    qed
    have rb: "of_int b \<le> pow2 (bitlen b)"
    proof -
      have "(of_int b :: rat) \<le> of_int ((2::int) ^ nat (bitlen b))"
        using lb by (simp only: of_int_le_iff)
      then show ?thesis using b0 by (simp add: pow2_def)
    qed
    have "pow2 (?e - 1) * pow2 (bitlen b) = pow2 (bitlen a - 1)"
      by (simp add: pow2_add [symmetric])
    then have "pow2 (?e - 1) * of_int b \<le> of_int a"
      using ra rb pow2_pos [of "?e - 1"]
      by (metis (no_types, opaque_lifting) less_eq_rat_def mult_left_mono order_trans)
    then have "pow2 (?e - 1) \<le> x"
      using b x by (simp add: pos_le_divide_eq)
    then show ?thesis using False by (simp add: ilog2_def q)
  qed
qed

lemma ilog2_bound:
  assumes "0 < x" "x < pow2 n"
  shows "ilog2 x < n"
  using ilog2_lower [OF assms(1)] assms(2) pow2_less_cancel [of "ilog2 x" n] by simp


lemma pow2_less: "a < b \<Longrightarrow> pow2 a < pow2 b"
  by (simp add: pow2_powi power_int_strict_increasing)

lemma pow2_half: "pow2 q / 2 = pow2 (q - 1)"
  using pow2_add [of "q - 1" 1] by (simp add: pow2_def)

lemma round_grid_error:
  "\<bar>of_int (round_half_even (x / pow2 q)) * pow2 q - x\<bar> \<le> pow2 (q - 1)"
proof -
  let ?m = "of_int (round_half_even (x / pow2 q)) :: rat"
  have p: "0 < pow2 q" by (rule pow2_pos)
  have "?m * pow2 q - x = (?m - x / pow2 q) * pow2 q"
    using p by (simp add: field_simps)
  then have "\<bar>?m * pow2 q - x\<bar> = \<bar>?m - x / pow2 q\<bar> * pow2 q"
    using p by (simp add: abs_mult)
  also have "\<dots> \<le> (1 / 2) * pow2 q"
    using round_half_even_error [of "x / pow2 q"] p by (intro mult_right_mono) simp_all
  also have "\<dots> = pow2 (q - 1)"
    using pow2_half [of q] by simp
  finally show ?thesis .
qed

lemma round_double_near:
  assumes "0 < x" "x < pow2 32"
  shows "\<exists>d. round_double x = Some d \<and> \<bar>d - x\<bar> \<le> pow2 (- 22)"
proof -
  define q where "q = max (ilog2 \<bar>x\<bar> - 52) (- 1074)"
  define r where "r = of_int (round_half_even (\<bar>x\<bar> / pow2 q)) * pow2 q"
  have ax: "\<bar>x\<bar> = x" using assms(1) by simp
  have "ilog2 x < 32" using assms by (rule ilog2_bound)
  then have q: "q - 1 \<le> - 22" by (simp add: q_def ax)
  have "\<bar>r - x\<bar> \<le> pow2 (q - 1)"
    unfolding r_def ax by (rule round_grid_error)
  also have "\<dots> \<le> pow2 (- 22)" using q by (rule pow2_mono)
  finally have err: "\<bar>r - x\<bar> \<le> pow2 (- 22)" .
  have "pow2 (- 22) \<le> pow2 32" by (rule pow2_mono) simp
  with err assms(2) have "r < pow2 32 + pow2 32" by linarith
  also have "\<dots> = pow2 33" using pow2_half [of 33] by simp
  also have "\<dots> < pow2 1024" by (rule pow2_less) simp
  finally have "\<not> pow2 1024 \<le> r" by simp
  moreover have "of_int (round_half_even (x / pow2 (max (ilog2 x - 52) (- 1074))))
                   * pow2 (max (ilog2 x - 52) (- 1074)) = r"
    by (simp add: r_def q_def ax)
  ultimately have "round_double x = Some r"
    using assms(1) by (simp add: round_double_def Let_def)
  with err show ?thesis by blast
qed

lemma round_double_half_int:
  assumes "0 \<le> n" "of_int n / 2 < pow2 32"
  shows "round_double (of_int n / 2) = Some (of_int n / 2)"
proof (cases "n = 0")
  case True
  then show ?thesis by (simp add: round_double_def)
next
  case False
  define x :: rat where "x = of_int n / 2"
  define q where "q = max (ilog2 \<bar>x\<bar> - 52) (- 1074)"
  have x: "0 < x" using assms(1) False by (simp add: x_def)
  then have ax: "\<bar>x\<bar> = x" by simp
  have "ilog2 x < 32" using x assms(2) unfolding x_def [symmetric] by (rule ilog2_bound)
  then have q: "q \<le> - 1" by (simp add: q_def ax)
  have "pow2 (- q - 1) * pow2 q = pow2 (- 1)" by (simp add: pow2_add [symmetric])
  then have "of_int n * pow2 (- q - 1) * pow2 q = x" by (simp add: x_def pow2_def)
  then have "x / pow2 q = of_int n * pow2 (- q - 1)"
    using pow2_pos [of q] by (simp add: field_simps)
  also have "\<dots> = of_int (n * 2 ^ nat (- q - 1))" using q by (simp add: pow2_def)
  finally have m: "round_half_even (x / pow2 q) = n * 2 ^ nat (- q - 1)"
    by (simp only: round_half_even_of_int)
  have r: "of_int (round_half_even (x / pow2 q)) * pow2 q = x"
    unfolding m using \<open>of_int n * pow2 (- q - 1) * pow2 q = x\<close> q by (simp add: pow2_def)
  have "x < pow2 1024" using assms(2) pow2_less [of 32 1024] by (simp add: x_def)
  moreover have "of_int (round_half_even (x / pow2 (max (ilog2 x - 52) (- 1074))))
                   * pow2 (max (ilog2 x - 52) (- 1074)) = x"
    using r by (simp add: q_def ax)
  ultimately have "round_double x = Some x"
    using x by (simp add: round_double_def Let_def)
  then show ?thesis by (simp add: x_def)
qed


lemma round_double_minus: "round_double (- x) = map_option uminus (round_double x)"
  by (simp add: round_double_def Let_def)

lemma pow2_32: "pow2 32 = 4294967296"
  by (simp add: pow2_def)

lemma pow2_m22: "pow2 (- 22) = 1 / 4194304"
  by (simp add: pow2_def)

lemma scaled_nonneg:
  assumes "0 \<le> t" "t < 2 ^ 40"
  shows "\<exists>d. round_double (of_int t / 1000) = Some d
           \<and> (\<exists>d2. round_double (d * 2) = Some d2 \<and> 0 \<le> d2 \<and> \<lfloor>d2\<rfloor> = t div 500)"
proof -
  define m where "m = t div 500"
  define r where "r = t mod 500"
  have t: "t = 500 * m + r" by (simp add: m_def r_def)
  have r: "0 \<le> r" "r < 500" by (simp_all add: r_def)
  have m: "0 \<le> m" "m < 2 ^ 32" using assms by (simp_all add: m_def)
  have x: "(of_int t :: rat) / 1000 = of_int m / 2 + of_int r / 1000"
    by (simp add: t)
  have mr: "(of_int m :: rat) < 4294967296" using m(2) by simp
  have xb: "(of_int t :: rat) / 1000 < pow2 32"
  proof -
    have "(of_int t :: rat) < of_int (2 ^ 40)" using assms(2) by (simp only: of_int_less_iff)
    then show ?thesis by (simp add: pow2_32)
  qed
  show ?thesis
  proof (cases "r = 0")
    case True
    then have e: "(of_int t :: rat) / 1000 = of_int m / 2" by (simp add: x)
    have a: "round_double (of_int t / 1000) = Some (of_int m / 2)"
      using m(1) xb unfolding e by (rule round_double_half_int)
    have "round_double (of_int (2 * m) / 2) = Some (of_int (2 * m) / 2)"
      using m(1) mr by (intro round_double_half_int) (simp_all add: pow2_32)
    then have b: "round_double (of_int m / 2 * 2) = Some (of_int m)" by simp
    have c: "(0::rat) \<le> of_int m \<and> \<lfloor>of_int m :: rat\<rfloor> = t div 500"
      using m(1) by (simp add: m_def)
    from a b c show ?thesis by blast
  next
    case False
    then have r1: "1 \<le> r" using r(1) by simp
    have rr: "(1::rat) \<le> of_int r" "(of_int r :: rat) \<le> 499"
      using r1 r(2) by simp_all
    have x0: "0 < (of_int t :: rat) / 1000" using rr(1) m(1) by (simp add: x add_nonneg_pos)
    obtain d where d: "round_double (of_int t / 1000) = Some d"
      and de: "\<bar>d - of_int t / 1000\<bar> \<le> pow2 (- 22)"
      using round_double_near [OF x0 xb] by blast
    have mq: "(0::rat) \<le> of_int m" using m(1) by simp
    define X :: rat where "X = of_int m"
    define R :: rat where "R = of_int r"
    have X: "0 \<le> X" "X < 4294967296" using mq mr by (simp_all add: X_def)
    have R: "1 \<le> R" "R \<le> 499" using rr by (simp_all add: R_def)
    have xb': "X / 2 + R / 1000 < 4294967296"
      using xb by (simp only: x pow2_32 X_def R_def)
    have dl: "d - (X / 2 + R / 1000) \<le> 1 / 4194304" "(X / 2 + R / 1000) - d \<le> 1 / 4194304"
      using de unfolding x pow2_m22 X_def R_def by linarith+
    have d0: "0 < d * 2" using dl X R by linarith
    have "(of_int t :: rat) < of_int (2 ^ 40)" using assms(2) by (simp only: of_int_less_iff)
    then have "(of_int t :: rat) / 1000 < 1099511628" by simp
    then have "X / 2 + R / 1000 < 1099511628" by (simp only: x X_def R_def)
    then have "d * 2 < 4294967296" using dl by linarith
    then have d1: "d * 2 < pow2 32" by (simp only: pow2_32)
    obtain d2 where d2: "round_double (d * 2) = Some d2"
      and d2e: "\<bar>d2 - d * 2\<bar> \<le> pow2 (- 22)"
      using round_double_near [OF d0 d1] by blast
    have d2l: "d2 - d * 2 \<le> 1 / 4194304" "d * 2 - d2 \<le> 1 / 4194304"
      using d2e unfolding pow2_m22 by linarith+
    have lo: "of_int m < d2" unfolding X_def [symmetric] using dl d2l R by linarith
    have hi: "d2 < of_int m + 1" unfolding X_def [symmetric] using dl d2l R by linarith
    have "\<lfloor>d2\<rfloor> = m" using lo hi by (intro floor_unique) simp_all
    moreover have "0 \<le> d2" using lo mq by linarith
    ultimately show ?thesis using d d2 by (simp add: m_def)
  qed
qed


lemma expiration_of_nonneg:
  assumes "0 \<le> t" "t < 2 ^ 40"
  shows "expiration_of (Some t) = Inr (t div 500)"
proof -
  obtain d d2 where "round_double (of_int t / 1000) = Some d"
    "round_double (d * 2) = Some d2" "0 \<le> d2" "\<lfloor>d2\<rfloor> = t div 500"
    using scaled_nonneg [OF assms] by blast
  then show ?thesis
    by (simp add: expiration_of_def int_truediv_def float_mul_def int_of_float_def)
qed

lemma expiration_of_neg:
  assumes "t < 0" "- (2 ^ 40) < t"
  shows "expiration_of (Some t) = Inr (- ((- t) div 500))"
proof -
  have "0 \<le> - t" "- t < 2 ^ 40" using assms by simp_all
  then obtain d d2 where d: "round_double (of_int (- t) / 1000) = Some d"
    and d2: "round_double (d * 2) = Some d2" and p: "0 \<le> d2" and f: "\<lfloor>d2\<rfloor> = (- t) div 500"
    using scaled_nonneg [of "- t"] by blast
  have "round_double (of_int t / 1000) = Some (- d)"
    using round_double_minus [of "of_int (- t) / 1000"] d by simp
  moreover have "round_double (- d * 2) = Some (- d2)"
    using round_double_minus [of "d * 2"] d2 by simp
  moreover have "(if 0 \<le> - d2 then \<lfloor>- d2\<rfloor> else \<lceil>- d2\<rceil>) = - ((- t) div 500)"
  proof (cases "d2 = 0")
    case True
    then show ?thesis using f by simp
  next
    case False
    then have "\<not> 0 \<le> - d2" using p by simp
    then show ?thesis using f by (simp add: ceiling_minus)
  qed
  ultimately show ?thesis
    by (simp add: expiration_of_def int_truediv_def float_mul_def int_of_float_def)
qed


lemma expiration_of_truncates:
  assumes "\<bar>t\<bar> < 2 ^ 40"
  shows "expiration_of (Some t) = Inr (sgn t * (\<bar>t\<bar> div 500))"
proof (cases "0 \<le> t")
  case True
  then show ?thesis using assms expiration_of_nonneg [of t] by (cases "t = 0") simp_all
next
  case False
  then show ?thesis using assms expiration_of_neg [of t] by simp
qed

text \<open>
  Far beyond that range the rounding of the quotient shows: the result is no longer the
  truncated exact value.
\<close>

lemma expiration_of_beyond_range:
  "expiration_of (Some 4503599627371395999) = Inr 9007199254742792
   \<and> (4503599627371395999::int) div 500 = 9007199254742791"
  by code_simp

section \<open>What the cache helpers and the two methods do\<close>

text \<open>
  Whenever the cache holds an entry for the key, \<open>get_options\<close> reads it and then fails on the
  unbound name; it returns options for no state at all.
\<close>

lemma get_options_stored:
  "cache st k = Some (v, ttl) \<Longrightarrow>
   get_options lib st k =
     (Inl (NameError ''json_loads_base64url_to_bytes''), st\<lparr>trace := trace st @ [CacheRetrieve k]\<rparr>)"
  by (simp add: get_options_def retrieve_def json_loads_base64url_to_bytes_def seq_def)

lemma get_options_absent:
  "cache st k = None \<Longrightarrow>
   get_options lib st k = (Inr None, st\<lparr>trace := trace st @ [CacheRetrieve k]\<rparr>)"
  by (simp add: get_options_def retrieve_def)

lemma get_options_never_loads: "fst (get_options lib st k) \<noteq> Inr (Some opts)"
  by (cases "cache st k") (auto simp: get_options_stored get_options_absent)

lemma verify_authentication_response_stored:
  "parse_authentication_credential_json lib response = Inr c \<Longrightarrow> cache st k = Some (v, ttl) \<Longrightarrow>
   verify_authentication_response lib settings st k ec response =
     (Inl (NameError ''json_loads_base64url_to_bytes''), st\<lparr>trace := trace st @ [CacheRetrieve k]\<rparr>)"
  by (simp add: verify_authentication_response_def get_options_stored)

lemma verify_authentication_response_never_returns:
  "fst (verify_authentication_response lib settings st k ec response) \<noteq> Inr v"
proof (cases "parse_authentication_credential_json lib response")
  case (Inl e)
  then show ?thesis by (simp add: verify_authentication_response_def)
next
  case (Inr c)
  then show ?thesis
    by (cases "cache st k")
       (auto simp: verify_authentication_response_def get_options_stored get_options_absent)
qed

lemma comprehension_Inr: "comprehension f xs = Inr ys \<Longrightarrow> map f xs = map Inr ys"
  by (induction xs arbitrary: ys) (auto split: sum.splits)

lemma trace_save_options:
  "trace (snd (save_options lib st k options)) = trace st
   \<or> (\<exists>v e. trace (snd (save_options lib st k options)) = trace st @ [CacheStore k v e])"
  by (auto simp: save_options_def store_def split: sum.splits)

lemma begin_unassigned:
  "assigned_user_verification uv = None \<Longrightarrow>
   generate_authentication_options lib settings st k uv creds =
     (Inl (UnboundLocalError ''_user_verification''), st)"
  by (simp add: generate_authentication_options_def)

text \<open>
  What lines 89 to 113 leave in the trace and in the cache: the delete, and then, if the
  stored public key decodes, the one call of the verifier.
\<close>

lemma trace_verify_with_options:
  "trace (snd (verify_with_options lib settings st k ec c options)) =
     trace st @ CacheDelete k #
       (case base64url_to_bytes lib (PStr (cred_public_key ec)) of
          Inl e \<Rightarrow> []
        | Inr pk \<Rightarrow>
            [LibVerify \<lparr>credential = c,
                        expected_challenge = challenge options,
                        expected_rp_id = RP_ID settings,
                        expected_origin = RP_EXPECTED_ORIGIN settings,
                        require_user_verification = (user_verification options = Some REQUIRED),
                        credential_public_key = pk,
                        credential_current_sign_count = cred_sign_count ec\<rparr>])"
  by (auto simp: verify_with_options_def delete_options_def delete_def Let_def
           split: sum.splits)

lemma cache_verify_with_options:
  "cache (snd (verify_with_options lib settings st k ec c options)) = (cache st)(k := None)"
  by (auto simp: verify_with_options_def delete_options_def delete_def Let_def
           split: sum.splits)

text \<open>
  What \<open>generate_authentication_options\<close> adds to the trace: nothing, or one call of the
  library's generator, followed at most by the store.
\<close>

lemma trace_begin:
  "drop (length (trace st))
        (trace (snd (generate_authentication_options lib settings st k uv creds))) = []
   \<or> (\<exists>p ds rest.
        comprehension (descriptor_of lib) (drop (length creds - 64) creds) = Inr ds
        \<and> drop (length (trace st))
            (trace (snd (generate_authentication_options lib settings st k uv creds)))
          = LibGenerate \<lparr>ga_rp_id = RP_ID settings, ga_user_verification = p,
                          ga_allow_credentials = ds\<rparr> # rest
        \<and> (\<forall>a. LibGenerate a \<notin> set rest))"
proof (cases "assigned_user_verification uv")
  case None
  then show ?thesis by (simp add: generate_authentication_options_def)
next
  case (Some p)
  show ?thesis
  proof (cases "comprehension (descriptor_of lib) (drop (length creds - 64) creds)")
    case (Inl e)
    then show ?thesis using Some by (simp add: generate_authentication_options_def)
  next
    case (Inr ds)
    let ?args = "\<lparr>ga_rp_id = RP_ID settings, ga_user_verification = p, ga_allow_credentials = ds\<rparr>"
    let ?st1 = "st\<lparr>trace := trace st @ [LibGenerate ?args]\<rparr>"
    show ?thesis
    proof (cases "lib_generate_authentication_options lib ?args")
      case (Inl e)
      then show ?thesis using Some Inr
        by (simp add: generate_authentication_options_def Let_def)
    next
      case gen: (Inr opts)
      have res: "snd (generate_authentication_options lib settings st k uv creds)
                   = snd (save_options lib ?st1 k opts)"
        using Some Inr gen
        by (auto simp: generate_authentication_options_def Let_def split: prod.splits sum.splits)
      from trace_save_options [of lib ?st1 k opts] show ?thesis
        using Inr by (auto simp: res)
    qed
  qed
qed

section \<open>The claims\<close>

text \<open>
  C1: once a call of \<^verbatim>\<open>verify_authentication_response\<close> for a key has reached the delete
  step, a second call with the same key fails with the missing-ceremony-state error. In the
  code no call reaches the delete step: with an entry stored under the key, the first call
  raises \<^verbatim>\<open>NameError\<close> inside \<^verbatim>\<open>_get_options\<close>, the entry is still there afterwards, and
  the second call raises \<^verbatim>\<open>NameError\<close> again, not \<^verbatim>\<open>InvalidAuthenticationResponse\<close>.
\<close>

theorem second_call_not_missing_state:
  "fst (verify_authentication_response sample_lib sample_settings pending ''k'' sample_credential
          sample_response) = Inl (NameError ''json_loads_base64url_to_bytes'')
   \<and> cache (snd (verify_authentication_response sample_lib sample_settings pending ''k''
                   sample_credential sample_response)) ''k'' = Some (''{challenge: AQID}'', 120)
   \<and> fst (verify_authentication_response sample_lib sample_settings
            (snd (verify_authentication_response sample_lib sample_settings pending ''k''
                    sample_credential sample_response))
            ''k'' sample_credential sample_response)
       = Inl (NameError ''json_loads_base64url_to_bytes'')"
  by (simp add: verify_authentication_response_def get_options_def retrieve_def
      json_loads_base64url_to_bytes_def seq_def sample_lib_def sample_response_def pending_def)


text \<open>
  C2, as stated: with a numeric timeout \<open>T\<close> in milliseconds on the options, the expiration
  that \<^verbatim>\<open>_save_options\<close> passes to the cache equals exactly \<open>2 \<times> T / 1000\<close> seconds. The
  code passes \<^verbatim>\<open>int(expiration / 1000 * 2)\<close>, a whole number: for a timeout of 1 ms the
  cache receives 0, not 0.002.
\<close>

theorem expiration_not_exact_counterexample:
  "trace (snd (save_options sample_lib idle ''k'' (sample_options\<lparr>timeout := Some 1\<rparr>)))
     = [CacheStore ''k'' ''{challenge: AQID}'' 0]
   \<and> (of_int 0 :: rat) \<noteq> 2 * of_int 1 / 1000"
  using expiration_of_nonneg [of 1]
  by (simp add: save_options_def store_def sample_lib_def sample_options_def idle_def)

text \<open>
  C2, amended: when the options serialise, \<^verbatim>\<open>_save_options\<close> stores them with an
  expiration of 120 seconds if they carry no timeout, and, if they carry a timeout \<open>T\<close> of
  magnitude below \<open>2\<^sup>4\<^sup>0\<close> ms, with \<open>2 \<times> T / 1000\<close> truncated towards zero to whole seconds
  (which is \<open>2 \<times> T / 1000\<close> itself whenever \<open>T\<close> is a multiple of 500).
\<close>

theorem save_options_expiration:
  assumes "options_to_json lib options = Inr v"
    and "case timeout options of None \<Rightarrow> True | Some t \<Rightarrow> \<bar>t\<bar> < 2 ^ 40"
  shows "save_options lib st k options =
           (Inr True,
            snd (store st k v (case timeout options of
                                 None \<Rightarrow> 120
                               | Some t \<Rightarrow> sgn t * (\<bar>t\<bar> div 500))))"
proof (cases "timeout options")
  case None
  then show ?thesis using assms(1) by (simp add: save_options_def expiration_of_def store_def)
next
  case (Some t)
  then have "expiration_of (timeout options) = Inr (sgn t * (\<bar>t\<bar> div 500))"
    using assms(2) expiration_of_truncates [of t] by simp
  then show ?thesis using assms(1) Some by (simp add: save_options_def store_def)
qed

theorem save_options_expiration_witness:
  "options_to_json sample_lib (sample_options\<lparr>timeout := Some 1999\<rparr>) = Inr ''{challenge: AQID}''
   \<and> \<bar>1999 :: int\<bar> < 2 ^ 40
   \<and> save_options sample_lib idle ''k'' (sample_options\<lparr>timeout := Some 1999\<rparr>)
       = (Inr True, \<lparr>cache = [''k'' \<mapsto> (''{challenge: AQID}'', 3)],
                     trace = [CacheStore ''k'' ''{challenge: AQID}'' 3]\<rparr>)
   \<and> options_to_json sample_lib (sample_options\<lparr>timeout := None\<rparr>) = Inr ''{challenge: AQID}''
   \<and> save_options sample_lib idle ''k'' (sample_options\<lparr>timeout := None\<rparr>)
       = (Inr True, \<lparr>cache = [''k'' \<mapsto> (''{challenge: AQID}'', 120)],
                     trace = [CacheStore ''k'' ''{challenge: AQID}'' 120]\<rparr>)"
  using save_options_expiration
          [of sample_lib "sample_options\<lparr>timeout := Some 1999\<rparr>" "''{challenge: AQID}''" idle "''k''"]
        save_options_expiration
          [of sample_lib "sample_options\<lparr>timeout := None\<rparr>" "''{challenge: AQID}''" idle "''k''"]
  by (simp add: sample_lib_def sample_options_def idle_def store_def)

text \<open>
  C3: within a call of \<^verbatim>\<open>verify_authentication_response\<close> that finds stored options in the
  cache, the options are read, then deleted, and only then is the verifier invoked. The
  code does not get that far. With an entry stored under the key and a response that parses,
  the call reads the entry and raises \<^verbatim>\<open>NameError\<close> inside \<^verbatim>\<open>_get_options\<close>: the trace
  holds the read alone, neither the delete of line 95 nor the verifier call of line 97, and
  the entry is still in the cache.
\<close>

theorem stored_options_never_deleted:
  "verify_authentication_response sample_lib sample_settings pending ''k'' sample_credential
     sample_response
     = (Inl (NameError ''json_loads_base64url_to_bytes''), pending\<lparr>trace := [CacheRetrieve ''k'']\<rparr>)"
  by (simp add: verify_authentication_response_def get_options_def retrieve_def
      json_loads_base64url_to_bytes_def seq_def sample_lib_def sample_response_def pending_def)

text \<open>
  C4, as stated: every call of \<^verbatim>\<open>verify_authentication_response\<close> made while the cache holds
  no entry for the key fails with the \<^verbatim>\<open>InvalidAuthenticationResponse\<close> that carries the key.
  The response is parsed on line 83, before the cache is consulted: with no entry stored and a
  response the library rejects, the call fails with the library's error and never reads the
  cache.
\<close>

theorem missing_options_counterexample:
  "cache idle ''k'' = None
   \<and> fst (verify_authentication_response sample_lib sample_settings idle ''k'' sample_credential PNone)
       = Inl (LibraryError ''malformed'')
   \<and> trace (snd (verify_authentication_response sample_lib sample_settings idle ''k''
                   sample_credential PNone)) = []"
  by (simp add: verify_authentication_response_def sample_lib_def idle_def)

text \<open>
  C4, amended: every call whose response parses, made while the cache holds no entry for the
  key, fails with \<^verbatim>\<open>InvalidAuthenticationResponse\<close> and the message
  \<^verbatim>\<open>no options for user <key>\<close>; the one cache read is all it does: no delete is issued, the
  verifier is not invoked and the cache is unchanged.
\<close>

theorem missing_options_fail_fast:
  "parse_authentication_credential_json lib response = Inr c \<Longrightarrow> cache st k = None \<Longrightarrow>
   verify_authentication_response lib settings st k ec response =
     (Inl (InvalidAuthenticationResponse (''no options for user '' @ k)),
      st\<lparr>trace := trace st @ [CacheRetrieve k]\<rparr>)"
  by (simp add: verify_authentication_response_def get_options_absent)

theorem missing_options_fail_fast_witness:
  "parse_authentication_credential_json sample_lib sample_response = Inr sample_response
   \<and> cache idle ''k'' = None
   \<and> verify_authentication_response sample_lib sample_settings idle ''k'' sample_credential
        sample_response =
       (Inl (InvalidAuthenticationResponse ''no options for user k''),
        idle\<lparr>trace := [CacheRetrieve ''k'']\<rparr>)"
  using missing_options_fail_fast
    [of sample_lib sample_response sample_response idle "''k''" sample_settings sample_credential]
  by (simp add: sample_lib_def sample_response_def idle_def)

text \<open>
  C5: whenever the verifier is invoked, the \<^verbatim>\<open>require_user_verification\<close> flag it receives
  is true if and only if the user-verification policy of the loaded options is
  \<^verbatim>\<open>required\<close>; for \<^verbatim>\<open>preferred\<close>, \<^verbatim>\<open>discouraged\<close> and an unset policy it is false. Stated
  on lines 89 to 113, for every options object with which execution arrives there.
\<close>

theorem require_user_verification_iff_required:
  "LibVerify a \<in> set (drop (length (trace st))
                      (trace (snd (verify_with_options lib settings st k ec c options)))) \<Longrightarrow>
   require_user_verification a = (user_verification options = Some REQUIRED)"
  by (auto simp: trace_verify_with_options split: sum.splits)

theorem require_user_verification_iff_required_witness:
  "LibVerify \<lparr>credential = sample_response, expected_challenge = [1, 2, 3],
              expected_rp_id = ''example.org'', expected_origin = ''https://example.org'',
              require_user_verification = False, credential_public_key = [112, 107],
              credential_current_sign_count = 4\<rparr>
     \<in> set (drop (length (trace pending))
              (trace (snd (verify_with_options sample_lib sample_settings pending ''k''
                             sample_credential sample_response
                             (sample_options\<lparr>user_verification := Some PREFERRED\<rparr>)))))
   \<and> user_verification (sample_options\<lparr>user_verification := Some PREFERRED\<rparr>) \<noteq> Some REQUIRED"
  using require_user_verification_iff_required
    [of "\<lparr>credential = sample_response, expected_challenge = [1, 2, 3],
              expected_rp_id = ''example.org'', expected_origin = ''https://example.org'',
              require_user_verification = False, credential_public_key = [112, 107],
              credential_current_sign_count = 4\<rparr>"
        pending sample_lib sample_settings "''k''" sample_credential sample_response
        "sample_options\<lparr>user_verification := Some PREFERRED\<rparr>"]
  by (simp add: trace_verify_with_options sample_lib_def sample_settings_def sample_credential_def
      sample_options_def sample_response_def pending_def)


text \<open>
  C6: storing an options record with \<^verbatim>\<open>_save_options\<close> and loading it with
  \<^verbatim>\<open>_get_options\<close> under the same key gives back the challenge and the credential ids byte for
  byte. In the code the load never returns: the store succeeds, and the load of what was just
  stored raises \<^verbatim>\<open>NameError\<close>.
\<close>

theorem stored_options_do_not_load:
  "fst (save_options sample_lib idle ''k'' sample_options) = Inr True
   \<and> fst (get_options sample_lib (snd (save_options sample_lib idle ''k'' sample_options)) ''k'')
       = Inl (NameError ''json_loads_base64url_to_bytes'')"
  using expiration_of_nonneg [of 60000]
  by (simp add: save_options_def store_def get_options_def retrieve_def
      json_loads_base64url_to_bytes_def seq_def sample_lib_def sample_options_def idle_def)


text \<open>
  C7: a \<^verbatim>\<open>user_verification\<close> string other than the three recognised ones is silently
  ignored by \<^verbatim>\<open>generate_authentication_options\<close>, no error is raised and option generation
  proceeds with the policy unset. The code raises instead: for the string \<^verbatim>\<open>bogus\<close> the
  call ends with \<^verbatim>\<open>UnboundLocalError\<close> before the library is called and before anything is
  stored.
\<close>

theorem unrecognized_user_verification_raises:
  "generate_authentication_options sample_lib sample_settings idle ''k'' ''bogus'' [sample_credential]
     = (Inl (UnboundLocalError ''_user_verification''), idle)"
  by (simp add: generate_authentication_options_def assigned_user_verification_def)

text \<open>
  C9: the username of a returned \<^verbatim>\<open>VerifiedAuthentication\<close> is the username of the
  existing-credential record passed in, and two runs that differ only in the credential parsed
  from the client's response return the same username. Stated on lines 89 to 113, for every
  options object with which execution arrives there.
\<close>

theorem username_from_existing_credential:
  assumes "verify_with_options lib settings st k ec c options = (Inr v, st')"
    and "verify_with_options lib settings st k ec c' options = (Inr v', st'')"
  shows "username v = cred_username ec \<and> username v' = username v"
  using assms
  by (auto simp: verify_with_options_def delete_options_def delete_def Let_def
           split: sum.splits)

theorem username_from_existing_credential_witness:
  "fst (verify_with_options sample_lib sample_settings pending ''k'' sample_credential
          sample_response sample_options)
     = Inr \<lparr>credential_id = [112, 107], new_sign_count = 5, username = ''alice''\<rparr>
   \<and> fst (verify_with_options sample_lib sample_settings pending ''k'' sample_credential
          (PDict [(''username'', PStr ''mallory'')]) sample_options)
     = Inr \<lparr>credential_id = [112, 107], new_sign_count = 5, username = ''alice''\<rparr>
   \<and> cred_username sample_credential = ''alice''"
proof -
  obtain v s where a: "verify_with_options sample_lib sample_settings pending ''k''
      sample_credential sample_response sample_options = (Inr v, s)"
    and va: "v = \<lparr>credential_id = [112, 107], new_sign_count = 5, username = ''alice''\<rparr>"
    by (simp add: verify_with_options_def delete_options_def delete_def Let_def sample_lib_def
        sample_settings_def sample_credential_def sample_options_def sample_response_def
        pending_def)
  obtain v' s' where b: "verify_with_options sample_lib sample_settings pending ''k''
      sample_credential (PDict [(''username'', PStr ''mallory'')]) sample_options = (Inr v', s')"
    and vb: "v' = \<lparr>credential_id = [112, 107], new_sign_count = 5, username = ''alice''\<rparr>"
    by (simp add: verify_with_options_def delete_options_def delete_def Let_def sample_lib_def
        sample_settings_def sample_credential_def sample_options_def sample_response_def
        pending_def)
  from username_from_existing_credential [OF a b] a b va vb show ?thesis
    by (simp add: sample_credential_def)
qed


text \<open>
  C10: when parsing the client response raises, \<^verbatim>\<open>verify_authentication_response\<close> passes
  the error on before any cache operation: nothing is read, nothing is deleted, and the state,
  with the stored record of the key, is exactly what it was.
\<close>

theorem malformed_response_touches_no_cache:
  "parse_authentication_credential_json lib response = Inl e \<Longrightarrow>
   verify_authentication_response lib settings st k ec response = (Inl e, st)"
  by (simp add: verify_authentication_response_def)

theorem malformed_response_touches_no_cache_witness:
  "parse_authentication_credential_json sample_lib PNone = Inl (LibraryError ''malformed'')
   \<and> verify_authentication_response sample_lib sample_settings pending ''k'' sample_credential PNone
       = (Inl (LibraryError ''malformed''), pending)"
  using malformed_response_touches_no_cache
    [of sample_lib PNone "LibraryError ''malformed''" sample_settings pending "''k''" sample_credential]
  by (simp add: sample_lib_def)

end
